theory Spec2Isabelle
  imports Main "HOL-Library.AList"
begin

section \<open>Schema dump script: \<open>scripts/dump_schema_docker.py\<close>\<close>

text \<open>
  A shallow embedding of the four functions of the script: \<open>load_env_file\<close>,
  \<open>parse_database_url\<close>, \<open>dump_schema_docker\<close> and \<open>main\<close>.

  Conventions of the model.
  \<^item> A Python \<open>str\<close> is a \<open>string\<close>; a \<open>char\<close> stands for the code point of the
    same number, so the model covers the texts whose code points are below 256.
    A \<open>bytes\<close> value is a \<open>string\<close> too, a \<open>char\<close> being a byte.
  \<^item> A \<open>dict\<close> is an association list in insertion order; \<open>d[k] = v\<close> is
    \<open>AList.update k v d\<close> (the value of an existing key is replaced in place, a
    new key is appended) and \<open>d.get(k)\<close> is \<open>map_of d k\<close>.
  \<^item> An exception is a value: a function that may raise returns \<open>py_error + 'a\<close>,
    a function that may end the process returns an \<open>outcome\<close>.
  \<^item> The file system is a map from path strings to nodes: a directory, or a text
    file with the text that reading it in text mode decodes (before the line breaks
    are translated). The bytes of a file are this text encoded with the codec of the
    locale. Links and permissions are not modelled.
  \<^item> The docker command is a parameter \<open>run\<close> of the model: the command runner, from
    the argument list to what the command does, with the bytes it prints.
  \<^item> What the platform provides is a parameter \<open>pf\<close>: the codec of the locale, and
    the two library functions that \<open>urlparse\<close> calls and the model does not unfold.
  \<^item> Console output (\<open>print\<close>) is not modelled.
\<close>

subsection \<open>Python string operations\<close>

text \<open>\<open>c.isspace()\<close> for the code points below 256.\<close>

definition py_isspace :: "char \<Rightarrow> bool" where
  "py_isspace c \<longleftrightarrow> c \<in> {CHR 0x09, CHR 0x0A, CHR 0x0B, CHR 0x0C, CHR 0x0D,
     CHR 0x1C, CHR 0x1D, CHR 0x1E, CHR 0x1F, CHR 0x20, CHR 0x85, CHR 0xA0}"

text \<open>\<open>s.lstrip(chars)\<close>, \<open>s.rstrip(chars)\<close>, \<open>s.strip(chars)\<close> with the set of characters
  given as a predicate, and \<open>s.strip()\<close>.\<close>

definition lstrip_by :: "(char \<Rightarrow> bool) \<Rightarrow> string \<Rightarrow> string" where
  "lstrip_by P s = dropWhile P s"

definition rstrip_by :: "(char \<Rightarrow> bool) \<Rightarrow> string \<Rightarrow> string" where
  "rstrip_by P s = rev (dropWhile P (rev s))"

definition strip_by :: "(char \<Rightarrow> bool) \<Rightarrow> string \<Rightarrow> string" where
  "strip_by P s = rstrip_by P (lstrip_by P s)"

definition py_strip :: "string \<Rightarrow> string" where
  "py_strip s = strip_by py_isspace s"

text \<open>\<open>s.startswith(c)\<close> and \<open>s.endswith(c)\<close> for a one-character \<open>c\<close>.\<close>

definition startswith :: "string \<Rightarrow> char \<Rightarrow> bool" where
  "startswith s c \<longleftrightarrow> (case s of [] \<Rightarrow> False | x # _ \<Rightarrow> x = c)"

definition endswith :: "string \<Rightarrow> char \<Rightarrow> bool" where
  "endswith s c \<longleftrightarrow> (case rev s of [] \<Rightarrow> False | x # _ \<Rightarrow> x = c)"

text \<open>\<open>s.partition(c)\<close> and \<open>s.rpartition(c)\<close> for a one-character separator: the text
  before the first (last) occurrence, whether there is one, and the text after it.\<close>

definition partition_at :: "char \<Rightarrow> string \<Rightarrow> string \<times> bool \<times> string" where
  "partition_at c s =
     (if c \<in> set s
      then (takeWhile (\<lambda>x. x \<noteq> c) s, True, tl (dropWhile (\<lambda>x. x \<noteq> c) s))
      else (s, False, []))"

definition rpartition_at :: "char \<Rightarrow> string \<Rightarrow> string \<times> bool \<times> string" where
  "rpartition_at c s =
     (if c \<in> set s
      then (rev (tl (dropWhile (\<lambda>x. x \<noteq> c) (rev s))), True,
            rev (takeWhile (\<lambda>x. x \<noteq> c) (rev s)))
      else ([], False, s))"

text \<open>\<open>s[1:-1]\<close>: without the first and the last character (empty when \<open>s\<close> has fewer
  than two characters).\<close>

definition slice_1_m1 :: "string \<Rightarrow> string" where
  "slice_1_m1 s = butlast (tl s)"

subsection \<open>Errors, processes and the file system\<close>

datatype py_error =
    ValueError
  | TypeError
  | FileExistsError
  | FileNotFoundError
  | NotADirectoryError
  | IsADirectoryError
  | UnicodeDecodeError
  | UnicodeEncodeError

text \<open>How the process ends: \<open>sys.exit(n)\<close>, or an exception nobody catches (the
  interpreter prints the traceback and exits with status 1).\<close>

datatype outcome = Exit nat | Uncaught py_error

fun exit_status :: "outcome \<Rightarrow> nat" where
  "exit_status (Exit n) = n"
| "exit_status (Uncaught e) = 1"

datatype node = File string | Dir

text \<open>What the command does when
  \<open>subprocess.run(cmd, capture_output=True, text=True, check=True)\<close> starts it: it
  exits with status 0, having written these bytes to its standard output
  (\<open>Completed\<close>); it exits with a non-zero status, and the call raises
  \<open>CalledProcessError\<close> with the captured standard error; or the executable is not
  found, and the call raises \<open>FileNotFoundError\<close> (\<open>CommandNotFound\<close>). The streams of
  a command that fails are taken to decode; the standard output of a command that
  completes is decoded in \<open>dump_schema_docker\<close>.\<close>

datatype proc_result =
    Completed string
  | CalledProcessError string
  | CommandNotFound

text \<open>What the platform provides.
  \<^item> \<open>check_bracketed_host h\<close>: \<open>urllib.parse._check_bracketed_host(h)\<close> returns
    (it raises \<open>ValueError\<close> otherwise); the syntax of an address between square
    brackets is decided by \<open>ipaddress\<close> and \<open>re\<close>.
  \<^item> \<open>nfkc s\<close>: \<open>unicodedata.normalize('NFKC', s)\<close>.
  \<^item> \<open>locale_decode b\<close>: \<open>b.decode(encoding)\<close> for the encoding of the locale, \<open>None\<close>
    when it raises \<open>UnicodeDecodeError\<close>.
  \<^item> \<open>locale_encode s\<close>: \<open>s.encode(encoding)\<close>, \<open>None\<close> when it raises
    \<open>UnicodeEncodeError\<close>.\<close>

record platform =
  check_bracketed_host :: "string \<Rightarrow> bool"
  nfkc :: "string \<Rightarrow> string"
  locale_decode :: "string \<Rightarrow> string option"
  locale_encode :: "string \<Rightarrow> string option"

text \<open>The bytes of a node of the file system: the text of a file, encoded.\<close>

definition file_bytes :: "platform \<Rightarrow> node \<Rightarrow> string option" where
  "file_bytes pf nd = (case nd of File text \<Rightarrow> locale_encode pf text | Dir \<Rightarrow> None)"

record world =
  fs :: "string \<Rightarrow> node option"
  invoked :: "string list list"

subsection \<open>\<open>load_env_file\<close>\<close>

text \<open>The lines of a text file opened in text mode (universal newlines): the text is
  cut at every \<open>\n\<close> and \<open>\r\<close>. A \<open>\r\n\<close> gives one more empty line than Python
  yields, and the text after the last line break may be empty; the loop body skips
  empty lines, and it strips the line break that Python keeps at the end of a line.\<close>

fun file_lines :: "string \<Rightarrow> string list" where
  "file_lines [] = [[]]"
| "file_lines (c # cs) =
     (if c = CHR 0x0A \<or> c = CHR 0x0D then [] # file_lines cs
      else (case file_lines cs of l # ls \<Rightarrow> (c # l) # ls | [] \<Rightarrow> [[c]]))"

text \<open>Lines 30 to 45, the body of the loop up to the assignment: the key and the value
  a line defines, or \<open>None\<close> for a line that is skipped.\<close>

definition env_entry :: "string \<Rightarrow> (string \<times> string) option" where
  "env_entry raw =
     (let line = py_strip raw in
      if line = [] \<or> startswith line CHR ''#'' then None
      else if CHR ''='' \<in> set line then
        (case partition_at CHR ''='' line of (key0, _, value0) \<Rightarrow>
           let key = py_strip key0;
               val = py_strip value0
           in if startswith val CHR 0x22 \<and> endswith val CHR 0x22
                then Some (key, slice_1_m1 val)
              else if startswith val CHR 0x27 \<and> endswith val CHR 0x27
                then Some (key, slice_1_m1 val)
              else Some (key, val))
      else None)"

text \<open>Line 47: \<open>env_vars[key] = value\<close>.\<close>

definition env_line :: "(string \<times> string) list \<Rightarrow> string \<Rightarrow> (string \<times> string) list" where
  "env_line env_vars raw =
     (case env_entry raw of
        None \<Rightarrow> env_vars
      | Some (key, val) \<Rightarrow> AList.update key val env_vars)"

text \<open>The loop over the lines of the file, from the empty dictionary.\<close>

definition env_of_text :: "string \<Rightarrow> (string \<times> string) list" where
  "env_of_text text = foldl env_line [] (file_lines text)"

text \<open>\<open>os.path.exists\<close> holds of files and of directories; \<open>open\<close> on a directory
  raises \<open>IsADirectoryError\<close>, which nothing catches.\<close>

definition load_env_file :: "(string \<Rightarrow> node option) \<Rightarrow> string \<Rightarrow> outcome + (string \<times> string) list" where
  "load_env_file files env_path =
     (case files env_path of
        None \<Rightarrow> Inl (Exit 1)
      | Some Dir \<Rightarrow> Inl (Uncaught IsADirectoryError)
      | Some (File text) \<Rightarrow> Inr (env_of_text text))"

subsection \<open>\<open>urllib.parse\<close>: what \<open>urlparse\<close> and the properties of its result compute\<close>

text \<open>
  \<open>parse_database_url\<close> calls \<open>urlparse\<close> of the standard library and reads five
  properties of its result. The definitions below follow \<open>urllib/parse.py\<close> of
  CPython 3.11 line by line, for \<open>str\<close> arguments and the default arguments
  \<open>scheme=''\<close>, \<open>allow_fragments=True\<close>. Two library functions are not unfolded and
  come from the platform: \<open>_check_bracketed_host\<close> and \<open>unicodedata.normalize\<close>.
\<close>

record parse_result =
  scheme :: string
  netloc :: string
  path :: string
  params :: string
  query :: string
  fragment :: string

text \<open>\<open>_WHATWG_C0_CONTROL_OR_SPACE\<close>, \<open>_UNSAFE_URL_BYTES_TO_REMOVE\<close>, \<open>scheme_chars\<close>
  and \<open>uses_params\<close>.\<close>

definition c0_control_or_space :: "char \<Rightarrow> bool" where
  "c0_control_or_space c \<longleftrightarrow> (of_char c :: nat) \<le> 0x20"

definition unsafe_url_byte :: "char \<Rightarrow> bool" where
  "unsafe_url_byte c \<longleftrightarrow> c \<in> {CHR 0x09, CHR 0x0D, CHR 0x0A}"

definition scheme_chars :: string where
  "scheme_chars = ''abcdefghijklmnopqrstuvwxyz'' @ ''ABCDEFGHIJKLMNOPQRSTUVWXYZ'' @
     ''0123456789'' @ ''+-.''"

definition uses_params :: "string list" where
  "uses_params = [[], ''ftp'', ''hdl'', ''prospero'', ''http'', ''imap'',
     ''https'', ''shttp'', ''rtsp'', ''rtsps'', ''rtspu'', ''sip'',
     ''sips'', ''mms'', ''sftp'', ''tel'']"

text \<open>\<open>c.isascii() and c.isalpha()\<close>, \<open>c.isascii() and c.isdigit()\<close>, and \<open>c.lower()\<close>
  for the code points below 256 (the ASCII capitals, and the capitals of Latin-1
  without the multiplication sign).\<close>

definition ascii_alpha :: "char \<Rightarrow> bool" where
  "ascii_alpha c \<longleftrightarrow> (let n = (of_char c :: nat) in (65 \<le> n \<and> n \<le> 90) \<or> (97 \<le> n \<and> n \<le> 122))"

definition ascii_digit :: "char \<Rightarrow> bool" where
  "ascii_digit c \<longleftrightarrow> (let n = (of_char c :: nat) in 48 \<le> n \<and> n \<le> 57)"

definition lower_char :: "char \<Rightarrow> char" where
  "lower_char c =
     (let n = (of_char c :: nat) in
      if (65 \<le> n \<and> n \<le> 90) \<or> (192 \<le> n \<and> n \<le> 222 \<and> n \<noteq> 215)
      then char_of (n + 32) else c)"

definition lower :: "string \<Rightarrow> string" where
  "lower s = map lower_char s"

text \<open>\<open>int(s)\<close> for a non-empty text of ASCII digits: the decimal value, or
  \<open>ValueError\<close> beyond the interpreter's limit of 4300 digits.\<close>

definition int_of_digits :: "string \<Rightarrow> py_error + int" where
  "int_of_digits s =
     (if length s > 4300 then Inl ValueError
      else Inr (foldl (\<lambda>n c. 10 * n + (int (of_char c) - 48)) 0 s))"

text \<open>\<open>_splitnetloc(url, start)\<close>, for \<open>start \<le> len(url)\<close>: the text from \<open>start\<close> up to
  the first of \<open>/?#\<close>, and the rest.\<close>

definition splitnetloc :: "string \<Rightarrow> nat \<Rightarrow> string \<times> string" where
  "splitnetloc url start =
     (let nodelim = (\<lambda>c. c \<notin> {CHR ''/'', CHR ''?'', CHR ''#''})
      in (takeWhile nodelim (drop start url), dropWhile nodelim (drop start url)))"

text \<open>\<open>_splitparams(url)\<close>. With no \<open>;\<close> and no \<open>/\<close> in \<open>url\<close> the index is \<open>-1\<close>
  and the slices are \<open>url[:-1]\<close> and \<open>url[0:]\<close>.\<close>

definition splitparams :: "string \<Rightarrow> string \<times> string" where
  "splitparams url =
     (if CHR ''/'' \<in> set url then
        (case rpartition_at CHR ''/'' url of (before, _, after) \<Rightarrow>
           (case partition_at CHR '';'' after of (a, found, b) \<Rightarrow>
              if found then (before @ ''/'' @ a, b) else (url, [])))
      else
        (case partition_at CHR '';'' url of (a, found, b) \<Rightarrow>
           if found then (a, b) else (butlast url, url)))"

text \<open>\<open>s.isascii()\<close>.\<close>

definition isascii :: "string \<Rightarrow> bool" where
  "isascii s \<longleftrightarrow> (\<forall>c \<in> set s. (of_char c :: nat) < 128)"

text \<open>\<open>_checknetloc(netloc)\<close>: returns at once for an empty or ASCII network location.
  Otherwise the characters \<open>@:#?\<close> are removed and the rest normalised; when that
  changes the text and the normal form holds one of \<open>/?#@:\<close>, the function raises
  \<open>ValueError\<close>.\<close>

definition checknetloc :: "platform \<Rightarrow> string \<Rightarrow> py_error option" where
  "checknetloc pf nl =
     (if nl = [] \<or> isascii nl then None
      else
        let n = filter (\<lambda>c. c \<notin> {CHR ''@'', CHR '':'', CHR ''#'', CHR ''?''}) nl;
            netloc2 = nfkc pf n
        in if n = netloc2 then None
           else if \<exists>c \<in> set ''/?#@:''. c \<in> set netloc2 then Some ValueError
           else None)"

text \<open>\<open>urlsplit(url)\<close>: the leading control characters and spaces are stripped, tabs
  and line breaks removed, then the scheme, the network location, the fragment and
  the query are cut off in this order, and the network location is checked last.\<close>

definition urlsplit :: "platform \<Rightarrow> string \<Rightarrow> py_error + parse_result" where
  "urlsplit pf url0 =
     (let url1 = lstrip_by c0_control_or_space url0;
          url2 = filter (\<lambda>c. \<not> unsafe_url_byte c) url1;
          (scheme', url3) =
             (case partition_at CHR '':'' url2 of (pre, found, post) \<Rightarrow>
                if found \<and> pre \<noteq> [] \<and> ascii_alpha (hd pre) \<and> (\<forall>c \<in> set pre. c \<in> set scheme_chars)
                then (lower pre, post) else ([], url2));
          (netloc', url4) =
             (if take 2 url3 = ''//'' then splitnetloc url3 2 else ([], url3));
          lbr = CHR ''['' \<in> set netloc';
          rbr = CHR '']'' \<in> set netloc'
      in if take 2 url3 = ''//'' \<and> ((lbr \<and> \<not> rbr) \<or> (rbr \<and> \<not> lbr)) then Inl ValueError
         else if take 2 url3 = ''//'' \<and> lbr \<and> rbr \<and>
                 \<not> check_bracketed_host pf
                     (fst (partition_at CHR '']'' (snd (snd (partition_at CHR ''['' netloc')))))
           then Inl ValueError
         else
           let (url5, fragment') =
                 (case partition_at CHR ''#'' url4 of (a, found, b) \<Rightarrow> (a, b));
               (url6, query') =
                 (case partition_at CHR ''?'' url5 of (a, found, b) \<Rightarrow> (a, b))
           in case checknetloc pf netloc' of
                Some e \<Rightarrow> Inl e
              | None \<Rightarrow>
                  Inr \<lparr>scheme = scheme', netloc = netloc', path = url6, params = [],
                       query = query', fragment = fragment'\<rparr>)"

definition urlparse :: "platform \<Rightarrow> string \<Rightarrow> py_error + parse_result" where
  "urlparse pf url =
     (case urlsplit pf url of
        Inl e \<Rightarrow> Inl e
      | Inr r \<Rightarrow>
          if scheme r \<in> set uses_params \<and> CHR '';'' \<in> set (path r)
          then (case splitparams (path r) of (url', params') \<Rightarrow>
                  Inr (r\<lparr>path := url', params := params'\<rparr>))
          else Inr r)"

text \<open>The properties \<open>_userinfo\<close> and \<open>_hostinfo\<close> of the result, as functions of its
  network location.\<close>

definition userinfo :: "string \<Rightarrow> string option \<times> string option" where
  "userinfo nl =
     (case rpartition_at CHR ''@'' nl of (ui, have_info, _) \<Rightarrow>
        if have_info then
          (case partition_at CHR '':'' ui of (username, have_password, password) \<Rightarrow>
             (Some username, if have_password then Some password else None))
        else (None, None))"

definition hostinfo :: "string \<Rightarrow> string \<times> string option" where
  "hostinfo nl =
     (case rpartition_at CHR ''@'' nl of (_, _, hi) \<Rightarrow>
        (case partition_at CHR ''['' hi of (_, have_open_br, bracketed) \<Rightarrow>
           let (hostname, port) =
                 (if have_open_br then
                    (case partition_at CHR '']'' bracketed of (h, _, p) \<Rightarrow>
                       (h, snd (snd (partition_at CHR '':'' p))))
                  else
                    (case partition_at CHR '':'' hi of (h, _, p) \<Rightarrow> (h, p)))
           in (hostname, if port = [] then None else Some port)))"

definition parsed_username :: "parse_result \<Rightarrow> string option" where
  "parsed_username r = fst (userinfo (netloc r))"

definition parsed_password :: "parse_result \<Rightarrow> string option" where
  "parsed_password r = snd (userinfo (netloc r))"

definition parsed_hostname :: "parse_result \<Rightarrow> string option" where
  "parsed_hostname r =
     (let hostname = fst (hostinfo (netloc r)) in
      if hostname = [] then None
      else (case partition_at CHR ''%'' hostname of (h, percent, zone) \<Rightarrow>
              Some (lower h @ (if percent then ''%'' else []) @ zone)))"

definition parsed_port :: "parse_result \<Rightarrow> py_error + int option" where
  "parsed_port r =
     (case snd (hostinfo (netloc r)) of
        None \<Rightarrow> Inr None
      | Some port \<Rightarrow>
          if (\<forall>c \<in> set port. ascii_digit c) then
            (case int_of_digits port of
               Inl e \<Rightarrow> Inl e
             | Inr n \<Rightarrow> if 0 \<le> n \<and> n \<le> 65535 then Inr (Some n) else Inl ValueError)
          else Inl ValueError)"

subsection \<open>\<open>parse_database_url\<close>\<close>

record db_config =
  host :: string
  port :: int
  database :: string
  user :: "string option"
  password :: "string option"

text \<open>\<open>x or d\<close> for an optional text and for an optional integer: \<open>None\<close>, the empty
  text and \<open>0\<close> are false.\<close>

definition str_or :: "string option \<Rightarrow> string \<Rightarrow> string" where
  "str_or x d = (case x of None \<Rightarrow> d | Some s \<Rightarrow> if s = [] then d else s)"

definition int_or :: "int option \<Rightarrow> int \<Rightarrow> int" where
  "int_or x d = (case x of None \<Rightarrow> d | Some n \<Rightarrow> if n = 0 then d else n)"

text \<open>The dictionary is built field by field; only \<open>parsed.port\<close> can raise.\<close>

definition parse_database_url :: "platform \<Rightarrow> string \<Rightarrow> py_error + db_config" where
  "parse_database_url pf database_url =
     (case urlparse pf database_url of
        Inl e \<Rightarrow> Inl e
      | Inr parsed \<Rightarrow>
          (case parsed_port parsed of
             Inl e \<Rightarrow> Inl e
           | Inr p \<Rightarrow>
               Inr \<lparr>host = str_or (parsed_hostname parsed) ''localhost'',
                    port = int_or p 5432,
                    database = takeWhile (\<lambda>c. c \<noteq> CHR ''?'')
                                 (lstrip_by (\<lambda>c. c = CHR ''/'') (path parsed)),
                    user = parsed_username parsed,
                    password = parsed_password parsed\<rparr>))"

subsection \<open>\<open>dump_schema_docker\<close>\<close>

text \<open>\<open>str(n)\<close> for an integer.\<close>

fun str_nat :: "nat \<Rightarrow> string" where
  "str_nat n =
     (if n < 10 then [''0123456789'' ! n]
      else str_nat (n div 10) @ [''0123456789'' ! (n mod 10)])"

declare str_nat.simps [simp del]

definition str_int :: "int \<Rightarrow> string" where
  "str_int i = (if i < 0 then CHR ''-'' # str_nat (nat (- i)) else str_nat (nat i))"

text \<open>Lines 69 to 82: the argument list. The user name is \<open>None\<close> when the URL has no
  \<open>@\<close>, so an argument is an optional text.\<close>

definition dump_cmd :: "db_config \<Rightarrow> string option list" where
  "dump_cmd db_config =
     [Some ''docker'', Some ''run'', Some ''--rm'',
      Some ''--network'', Some ''host'',
      Some ''-e'',
      Some (case password db_config of
              None \<Rightarrow> ''PGPASSWORD=''
            | Some pw \<Rightarrow> if pw = [] then ''PGPASSWORD='' else ''PGPASSWORD='' @ pw),
      Some ''postgres:16'',
      Some ''pg_dump'',
      Some ''--host'', Some (host db_config),
      Some ''--port'', Some (str_int (port db_config)),
      Some ''--username'', user db_config,
      Some ''--dbname'', Some (database db_config),
      Some ''--schema-only'',
      Some ''--no-owner'',
      Some ''--no-privileges'']"

text \<open>Before it starts the process, \<open>subprocess.run\<close> converts the arguments in order:
  \<open>None\<close> raises \<open>TypeError\<close>, a text with a NUL character raises \<open>ValueError\<close>.
  \<open>dump_schema_docker\<close> catches neither.\<close>

fun check_args :: "string option list \<Rightarrow> py_error option" where
  "check_args [] = None"
| "check_args (None # args) = Some TypeError"
| "check_args (Some a # args) = (if CHR 0x00 \<in> set a then Some ValueError else check_args args)"

text \<open>With \<open>text=True\<close> the captured bytes are decoded with the codec of the locale
  and the line breaks translated (\<open>_translate_newlines\<close>):
  \<open>data.replace("\r\n", "\n").replace("\r", "\n")\<close>.\<close>

fun replace_crlf :: "string \<Rightarrow> string" where
  "replace_crlf [] = []"
| "replace_crlf [c] = [c]"
| "replace_crlf (c # d # cs) =
     (if c = CHR 0x0D \<and> d = CHR 0x0A then CHR 0x0A # replace_crlf cs
      else c # replace_crlf (d # cs))"

definition translate_newlines :: "string \<Rightarrow> string" where
  "translate_newlines data =
     map (\<lambda>c. if c = CHR 0x0D then CHR 0x0A else c) (replace_crlf data)"

text \<open>\<open>os.path.dirname\<close> of a path: the text before its last slash.\<close>

definition parent_dir :: "string \<Rightarrow> string" where
  "parent_dir p = fst (rpartition_at CHR ''/'' p)"

text \<open>\<open>open(p, 'w')\<close>: the error it raises, or \<open>None\<close> when it creates or truncates the
  file. The directory of the path is looked up first (a path with no directory
  part, or one in the root, has it).\<close>

definition open_w :: "(string \<Rightarrow> node option) \<Rightarrow> string \<Rightarrow> py_error option" where
  "open_w files p =
     (case (if parent_dir p = [] then Some Dir else files (parent_dir p)) of
        None \<Rightarrow> Some FileNotFoundError
      | Some (File _) \<Rightarrow> Some NotADirectoryError
      | Some Dir \<Rightarrow>
          (case files p of Some Dir \<Rightarrow> Some IsADirectoryError | _ \<Rightarrow> None))"

text \<open>The function returns \<open>True\<close> or \<open>False\<close>, or raises. The command runner is
  invoked once the arguments are accepted, and the call is recorded in \<open>invoked\<close>.
  When the command has completed, its output is decoded (\<open>UnicodeDecodeError\<close> is not
  caught) and the line breaks are translated: that text is \<open>result.stdout\<close>. Only
  then is the output file opened for writing. \<open>FileNotFoundError\<close> from \<open>open\<close> is
  caught by the handler written for a missing docker, the other errors are not.
  \<open>f.write\<close> encodes the text: when that raises, the file is left empty.\<close>

definition dump_schema_docker ::
  "(string list \<Rightarrow> proc_result) \<Rightarrow> platform \<Rightarrow> db_config \<Rightarrow> string \<Rightarrow> world \<Rightarrow>
     (py_error + bool) \<times> world" where
  "dump_schema_docker run pf db_config output_file w =
     (let cmd = dump_cmd db_config in
      case check_args cmd of
        Some e \<Rightarrow> (Inl e, w)
      | None \<Rightarrow>
          let args = map the cmd;
              w1 = w\<lparr>invoked := invoked w @ [args]\<rparr>
          in (case run args of
                Completed raw \<Rightarrow>
                  (case locale_decode pf raw of
                     None \<Rightarrow> (Inl UnicodeDecodeError, w1)
                   | Some text \<Rightarrow>
                       let stdout = translate_newlines text in
                       (case open_w (fs w1) output_file of
                          Some e \<Rightarrow>
                            if e = FileNotFoundError then (Inr False, w1) else (Inl e, w1)
                        | None \<Rightarrow>
                            (case locale_encode pf stdout of
                               None \<Rightarrow>
                                 (Inl UnicodeEncodeError,
                                  w1\<lparr>fs := (fs w1)(output_file \<mapsto> File [])\<rparr>)
                             | Some bytes \<Rightarrow>
                                 (Inr True,
                                  w1\<lparr>fs := (fs w1)(output_file \<mapsto> File stdout)\<rparr>))))
              | CalledProcessError stderr \<Rightarrow> (Inr False, w1)
              | CommandNotFound \<Rightarrow> (Inr False, w1)))"

subsection \<open>\<open>main\<close>\<close>

text \<open>\<open>d / name\<close> of \<open>pathlib\<close>, for a directory \<open>d\<close> written without a final slash.\<close>

definition joinpath :: "string \<Rightarrow> string \<Rightarrow> string" where
  "joinpath d name = d @ ''/'' @ name"

definition env_file :: "string \<Rightarrow> string" where
  "env_file project_root = joinpath project_root ''.env''"

definition docs_dir :: "string \<Rightarrow> string" where
  "docs_dir project_root = joinpath project_root ''docs''"

definition output_file :: "string \<Rightarrow> string" where
  "output_file project_root = joinpath (docs_dir project_root) ''prism.sql''"

text \<open>\<open>p.mkdir(exist_ok=True)\<close>: creates the directory, accepts one that exists, and
  raises \<open>FileExistsError\<close> when the path is a file.\<close>

definition mkdir_exist_ok :: "(string \<Rightarrow> node option) \<Rightarrow> string \<Rightarrow> py_error + (string \<Rightarrow> node option)" where
  "mkdir_exist_ok files p =
     (case files p of
        None \<Rightarrow> Inr (files(p \<mapsto> Dir))
      | Some Dir \<Rightarrow> Inr files
      | Some (File _) \<Rightarrow> Inl FileExistsError)"

text \<open>The whole run, from the project root (the parent of the script's directory) and
  the world before to the way the process ends and the world after.\<close>

definition main ::
  "(string list \<Rightarrow> proc_result) \<Rightarrow> platform \<Rightarrow> string \<Rightarrow> world \<Rightarrow> outcome \<times> world" where
  "main run pf project_root w =
     (case load_env_file (fs w) (env_file project_root) of
        Inl out \<Rightarrow> (out, w)
      | Inr env_vars \<Rightarrow>
          (case map_of env_vars ''DATABASE_URL'' of
             None \<Rightarrow> (Exit 1, w)
           | Some database_url \<Rightarrow>
               if database_url = [] then (Exit 1, w)
               else
                 (case parse_database_url pf database_url of
                    Inl e \<Rightarrow> (Uncaught e, w)
                  | Inr db_config \<Rightarrow>
                      (case mkdir_exist_ok (fs w) (docs_dir project_root) of
                         Inl e \<Rightarrow> (Uncaught e, w)
                       | Inr files \<Rightarrow>
                           (case dump_schema_docker run pf db_config
                                   (output_file project_root) (w\<lparr>fs := files\<rparr>) of
                              (Inl e, w') \<Rightarrow> (Uncaught e, w')
                            | (Inr success, w') \<Rightarrow>
                                (if success then Exit 0 else Exit 1, w'))))))"

subsection \<open>A sample run\<close>

text \<open>The first example of the specification, as a project whose \<open>.env\<close> file holds the
  one line \<open>DATABASE_URL=postgres://u:p@myhost:5433/mydb\<close> and that has no \<open>docs\<close>
  directory yet, with the argument list \<open>main\<close> builds for it.\<close>

definition sample_url :: string where
  "sample_url = ''postgres://u:p@myhost:5433/mydb''"

definition sample_env_text :: string where
  "sample_env_text = ''DATABASE_URL=postgres://u:p@myhost:5433/mydb''"

definition sample_world :: world where
  "sample_world = \<lparr>fs = [''/proj/.env'' \<mapsto> File sample_env_text], invoked = []\<rparr>"

definition sample_args :: "string list" where
  "sample_args =
     [''docker'', ''run'', ''--rm'', ''--network'', ''host'', ''-e'', ''PGPASSWORD=p'',
      ''postgres:16'', ''pg_dump'', ''--host'', ''myhost'', ''--port'', ''5433'',
      ''--username'', ''u'', ''--dbname'', ''mydb'',
      ''--schema-only'', ''--no-owner'', ''--no-privileges'']"

text \<open>A platform for the examples. Its locale is ISO-8859-1, whose codec maps a byte
  to the code point of the same number and never fails. The examples have ASCII
  network locations without brackets, so they reach neither library function: this
  platform rejects every bracketed host and its normalisation changes nothing.\<close>

definition sample_platform :: platform where
  "sample_platform =
     \<lparr>check_bracketed_host = (\<lambda>h. False), nfkc = (\<lambda>s. s),
      locale_decode = Some, locale_encode = Some\<rparr>"

text \<open>Three command runners: one whose command always exits with a non-zero status,
  one whose command always prints the same schema on one line, and one whose
  command prints two lines that end with a carriage return and a line feed.\<close>

definition run_failing :: "string list \<Rightarrow> proc_result" where
  "run_failing cmd = CalledProcessError ''connection refused''"

definition run_printing :: "string list \<Rightarrow> proc_result" where
  "run_printing cmd = Completed ''CREATE TABLE t ();''"

definition crlf_output :: string where
  "crlf_output = ''CREATE TABLE t ();'' @ [CHR 0x0D, CHR 0x0A] @ ''CREATE TABLE u ();'' @
     [CHR 0x0D, CHR 0x0A]"

definition lf_output :: string where
  "lf_output = ''CREATE TABLE t ();'' @ [CHR 0x0A] @ ''CREATE TABLE u ();'' @ [CHR 0x0A]"

definition run_printing_crlf :: "string list \<Rightarrow> proc_result" where
  "run_printing_crlf cmd = Completed crlf_output"

section \<open>Properties of the environment loader\<close>

subsection \<open>Stripping and splitting\<close>

lemma dropWhile_mid: "\<not> P c \<Longrightarrow> dropWhile P (a @ c # b) = dropWhile P a @ c # b"
  by (induction a) auto

lemma rstrip_by_mid: "\<not> P c \<Longrightarrow> rstrip_by P (a @ c # b) = a @ c # rstrip_by P b"
  by (simp add: rstrip_by_def dropWhile_mid)

lemma strip_by_mid:
  "\<not> P c \<Longrightarrow> strip_by P (a @ c # b) = dropWhile P a @ c # rstrip_by P b"
  by (simp add: strip_by_def lstrip_by_def dropWhile_mid rstrip_by_mid)

lemma rstrip_by_idem: "rstrip_by P (rstrip_by P s) = rstrip_by P s"
  by (simp add: rstrip_by_def dropWhile_idem)

lemma strip_by_all: "\<forall>x\<in>set s. P x \<Longrightarrow> strip_by P s = []"
proof -
  assume "\<forall>x\<in>set s. P x"
  then have d: "dropWhile P s = []" by (induction s) auto
  show ?thesis unfolding strip_by_def lstrip_by_def rstrip_by_def d by simp
qed

lemma rstrip_by_all: "\<forall>x\<in>set s. P x \<Longrightarrow> rstrip_by P s = []"
  by (simp add: rstrip_by_def)

lemma strip_by_rstrip_by: "strip_by P (rstrip_by P s) = strip_by P s"
proof (cases "\<forall>x\<in>set s. P x")
  case True
  then show ?thesis by (simp add: strip_by_all rstrip_by_all)
next
  case False
  then obtain a c b where s: "s = a @ c # b" and c: "\<not> P c"
    by (meson split_list)
  show ?thesis
    by (simp add: s strip_by_mid rstrip_by_mid rstrip_by_idem c)
qed

lemma strip_by_lstrip: "strip_by P (dropWhile P s) = strip_by P s"
  by (simp add: strip_by_def lstrip_by_def dropWhile_idem)

lemma startswith_strip_by:
  "startswith (strip_by P k) c = startswith (dropWhile P k) c"
proof (cases "dropWhile P k")
  case Nil
  show ?thesis unfolding strip_by_def lstrip_by_def rstrip_by_def Nil by simp
next
  case (Cons x t)
  then have "\<not> P x" by (metis hd_dropWhile list.distinct(1) list.sel(1))
  then have "rstrip_by P ([] @ x # t) = [] @ x # rstrip_by P t" by (rule rstrip_by_mid)
  then show ?thesis using Cons by (simp add: strip_by_def lstrip_by_def startswith_def)
qed

lemma partition_at_mid:
  "c \<notin> set a \<Longrightarrow> partition_at c (a @ c # b) = (a, True, b)"
  by (induction a) (auto simp: partition_at_def)

lemma env_entry_assign:
  assumes "CHR ''='' \<notin> set k" and "\<not> startswith (py_strip k) CHR ''#''"
  shows "env_entry (k @ CHR ''='' # rest) =
     Some (py_strip k,
       (let val = py_strip rest in
        if startswith val CHR 0x22 \<and> endswith val CHR 0x22 then slice_1_m1 val
        else if startswith val CHR 0x27 \<and> endswith val CHR 0x27 then slice_1_m1 val
        else val))"
proof -
  have ne: "\<not> py_isspace CHR ''=''" by (simp add: py_isspace_def)
  have line: "py_strip (k @ CHR ''='' # rest)
      = dropWhile py_isspace k @ CHR ''='' # rstrip_by py_isspace rest"
    unfolding py_strip_def using ne by (rule strip_by_mid)
  have notin: "CHR ''='' \<notin> set (dropWhile py_isspace k)"
    using assms(1) by (meson set_dropWhileD)
  have sw: "\<not> startswith (dropWhile py_isspace k @ CHR ''='' # rstrip_by py_isspace rest) CHR ''#''"
  proof (cases "dropWhile py_isspace k")
    case Nil
    show ?thesis unfolding Nil by (simp add: startswith_def)
  next
    case (Cons x t)
    from assms(2) have "\<not> startswith (dropWhile py_isspace k) CHR ''#''"
      unfolding py_strip_def startswith_strip_by .
    then show ?thesis unfolding Cons by (simp add: startswith_def)
  qed
  show ?thesis
    unfolding env_entry_def line Let_def
    using sw
    by (simp add: partition_at_mid [OF notin] py_strip_def strip_by_lstrip strip_by_rstrip_by)
qed

lemma map_of_env_line:
  "map_of (env_line env l) k =
     (case env_entry l of None \<Rightarrow> map_of env k
      | Some (k', v) \<Rightarrow> if k' = k then Some v else map_of env k)"
  by (auto simp: env_line_def update_conv' split: option.splits)

lemma map_of_foldl_env_line_other:
  "\<forall>l\<in>set ls. \<forall>v. env_entry l \<noteq> Some (k, v) \<Longrightarrow>
     map_of (foldl env_line env ls) k = map_of env k"
  by (induction ls arbitrary: env) (auto simp: map_of_env_line split: option.splits)

lemma distinct_env_line: "distinct (map fst env) \<Longrightarrow> distinct (map fst (env_line env l))"
  by (auto simp: env_line_def distinct_update split: option.splits)

lemma distinct_foldl_env_line:
  "distinct (map fst env) \<Longrightarrow> distinct (map fst (foldl env_line env ls))"
  by (induction ls arbitrary: env) (auto simp: distinct_env_line)

lemma env_of_text_last:
  assumes "file_lines text = pre @ l # post" and "env_entry l = Some (k, v)"
    and "\<forall>l'\<in>set post. \<forall>v'. env_entry l' \<noteq> Some (k, v')"
  shows "map_of (env_of_text text) k = Some v"
  using assms(2) map_of_foldl_env_line_other [OF assms(3)]
  by (simp add: env_of_text_def assms(1) map_of_env_line)

lemma py_strip_quoted:
  assumes "q = CHR 0x22 \<or> q = CHR 0x27"
  shows "py_strip (q # v @ [q]) = q # v @ [q]"
proof -
  from assms have nq: "\<not> py_isspace q" by (auto simp: py_isspace_def)
  have "strip_by py_isspace ([] @ q # (v @ [q])) = dropWhile py_isspace [] @ q # rstrip_by py_isspace (v @ [q])"
    using nq by (rule strip_by_mid)
  moreover have "rstrip_by py_isspace (v @ q # []) = v @ q # rstrip_by py_isspace []"
    using nq by (rule rstrip_by_mid)
  ultimately show ?thesis by (simp add: py_strip_def rstrip_by_def)
qed

text \<open>
  Claim C7. A line \<open>KEY="value with spaces"\<close> of the environment file, with a pair
  of double quotes or of single quotes around the value, maps the key to the value
  without this one pair of quotes, whatever the characters between them are; the
  line is the last one that defines the key.
\<close>

theorem load_env_file_quoted_value:
  assumes "files env_path = Some (File text)"
    and "file_lines text = pre @ (k @ CHR ''='' # q # v @ [q]) # post"
    and "q = CHR 0x22 \<or> q = CHR 0x27"
    and "CHR ''='' \<notin> set k"
    and "\<not> startswith (py_strip k) CHR ''#''"
    and "\<forall>l\<in>set post. \<forall>v'. env_entry l \<noteq> Some (py_strip k, v')"
  shows "\<exists>env. load_env_file files env_path = Inr env \<and> map_of env (py_strip k) = Some v"
proof -
  have e: "env_entry (k @ CHR ''='' # q # v @ [q]) = Some (py_strip k, v)"
    using assms(3)
    by (auto simp: env_entry_assign [OF assms(4,5)] py_strip_quoted [OF assms(3)]
        startswith_def endswith_def slice_1_m1_def)
  have "map_of (env_of_text text) (py_strip k) = Some v"
    using assms(2) e assms(6) by (rule env_of_text_last)
  then show ?thesis by (simp add: load_env_file_def assms(1))
qed

theorem load_env_file_quoted_value_witness:
  "\<exists>env. load_env_file [''.env'' \<mapsto> File (''KEY='' @ CHR 0x22 # ''value with spaces'' @ [CHR 0x22])] ''.env'' = Inr env
      \<and> map_of env ''KEY'' = Some ''value with spaces''"
proof -
  have s: "py_strip ''KEY'' = ''KEY''" by code_simp
  have l: "file_lines (''KEY='' @ CHR 0x22 # ''value with spaces'' @ [CHR 0x22])
      = [] @ (''KEY'' @ CHR ''='' # CHR 0x22 # ''value with spaces'' @ [CHR 0x22]) # []"
    by simp
  have f: "[''.env'' \<mapsto> File (''KEY='' @ CHR 0x22 # ''value with spaces'' @ [CHR 0x22])] ''.env''
      = Some (File (''KEY='' @ CHR 0x22 # ''value with spaces'' @ [CHR 0x22]))" by simp
  have "\<exists>env. load_env_file [''.env'' \<mapsto> File (''KEY='' @ CHR 0x22 # ''value with spaces'' @ [CHR 0x22])] ''.env'' = Inr env
      \<and> map_of env (py_strip ''KEY'') = Some ''value with spaces''"
    using f l
    by (rule load_env_file_quoted_value
          [of _ _ _ "[]" "''KEY''" "CHR 0x22" "''value with spaces''" "[]"])
       (simp_all add: s startswith_def)
  then show ?thesis by (simp only: s)
qed

text \<open>
  Claim C8. When several lines define the same key, \<open>load_env_file\<close> maps the key to
  the value of the last of them, and no key occurs twice in the dictionary.
\<close>

theorem load_env_file_last_write_wins:
  assumes "files env_path = Some (File text)"
    and "file_lines text = pre @ l # post"
    and "env_entry l = Some (k, v)"
    and "\<forall>l'\<in>set post. \<forall>v'. env_entry l' \<noteq> Some (k, v')"
  shows "\<exists>env. load_env_file files env_path = Inr env \<and> map_of env k = Some v
           \<and> distinct (map fst env)"
proof -
  have "map_of (env_of_text text) k = Some v"
    using assms(2-4) by (rule env_of_text_last)
  moreover have "distinct (map fst (env_of_text text))"
    unfolding env_of_text_def by (rule distinct_foldl_env_line) simp
  ultimately show ?thesis by (simp add: load_env_file_def assms(1))
qed

theorem load_env_file_last_write_wins_witness:
  "\<exists>env. load_env_file [''.env'' \<mapsto> File (''A=1'' @ CHR 0x0A # ''B=2'' @ CHR 0x0A # ''A=3'')] ''.env'' = Inr env
      \<and> map_of env ''A'' = Some ''3'' \<and> distinct (map fst env)"
proof -
  have f: "[''.env'' \<mapsto> File (''A=1'' @ CHR 0x0A # ''B=2'' @ CHR 0x0A # ''A=3'')] ''.env''
      = Some (File (''A=1'' @ CHR 0x0A # ''B=2'' @ CHR 0x0A # ''A=3''))" by simp
  have l: "file_lines (''A=1'' @ CHR 0x0A # ''B=2'' @ CHR 0x0A # ''A=3'') = [''A=1'', ''B=2''] @ ''A=3'' # []"
    by simp
  have e: "env_entry ''A=3'' = Some (''A'', ''3'')" by code_simp
  show ?thesis
    using f l e
    by (rule load_env_file_last_write_wins [of _ _ _ "[''A=1'', ''B=2'']" "''A=3''" "[]"]) simp
qed

text \<open>
  Claim C9. A line whose value, once stripped, is one quote character alone maps the
  key to the empty text: the first and the last character of the value are that same
  quote, and \<open>value[1:-1]\<close> is empty.
\<close>

theorem load_env_file_lone_quote:
  assumes "files env_path = Some (File text)"
    and "file_lines text = pre @ (k @ CHR ''='' # rest) # post"
    and "py_strip rest = [q]"
    and "q = CHR 0x22 \<or> q = CHR 0x27"
    and "CHR ''='' \<notin> set k"
    and "\<not> startswith (py_strip k) CHR ''#''"
    and "\<forall>l\<in>set post. \<forall>v'. env_entry l \<noteq> Some (py_strip k, v')"
  shows "\<exists>env. load_env_file files env_path = Inr env \<and> map_of env (py_strip k) = Some []"
proof -
  have e: "env_entry (k @ CHR ''='' # rest) = Some (py_strip k, [])"
    using assms(4)
    by (auto simp: env_entry_assign [OF assms(5,6)] assms(3)
        startswith_def endswith_def slice_1_m1_def)
  have "map_of (env_of_text text) (py_strip k) = Some []"
    using assms(2) e assms(7) by (rule env_of_text_last)
  then show ?thesis by (simp add: load_env_file_def assms(1))
qed

theorem load_env_file_lone_quote_witness:
  "\<exists>env. load_env_file [''.env'' \<mapsto> File (''KEY= '' @ [CHR 0x22])] ''.env'' = Inr env
      \<and> map_of env ''KEY'' = Some []"
proof -
  have s: "py_strip ''KEY'' = ''KEY''" by code_simp
  have r: "py_strip ('' '' @ [CHR 0x22]) = [CHR 0x22]" by code_simp
  have l: "file_lines (''KEY= '' @ [CHR 0x22]) = [] @ (''KEY'' @ CHR ''='' # ('' '' @ [CHR 0x22])) # []"
    by simp
  have f: "[''.env'' \<mapsto> File (''KEY= '' @ [CHR 0x22])] ''.env'' = Some (File (''KEY= '' @ [CHR 0x22]))"
    by simp
  have "\<exists>env. load_env_file [''.env'' \<mapsto> File (''KEY= '' @ [CHR 0x22])] ''.env'' = Inr env
      \<and> map_of env (py_strip ''KEY'') = Some []"
    using f l r
    by (rule load_env_file_lone_quote
          [of _ _ _ "[]" "''KEY''" "'' '' @ [CHR 0x22]" "[]" "CHR 0x22"])
       (simp_all add: s startswith_def)
  then show ?thesis by (simp only: s)
qed

section \<open>Properties of the run\<close>

subsection \<open>How \<open>main\<close> ends\<close>

lemma docs_dir_neq_output_file: "docs_dir r \<noteq> output_file r"
  by (simp add: docs_dir_def output_file_def joinpath_def)

lemma mkdir_exist_ok_Inr:
  "mkdir_exist_ok f p = Inr f' \<Longrightarrow> f' p = Some Dir \<and> (\<forall>q. q \<noteq> p \<longrightarrow> f' q = f q)"
  by (auto simp: mkdir_exist_ok_def split: option.splits node.splits)

lemma dropWhile_until:
  "\<forall>x\<in>set xs. x \<noteq> c \<Longrightarrow> dropWhile (\<lambda>x. x \<noteq> c) (xs @ c # ys) = c # ys"
  by (induction xs) auto

lemma takeWhile_until:
  "\<forall>x\<in>set xs. x \<noteq> c \<Longrightarrow> takeWhile (\<lambda>x. x \<noteq> c) (xs @ c # ys) = xs"
  by (induction xs) auto

lemma rpartition_at_mid:
  assumes "c \<notin> set b"
  shows "rpartition_at c (a @ c # b) = (a, True, b)"
proof -
  have "\<forall>x\<in>set (rev b). x \<noteq> c" using assms by auto
  then have "dropWhile (\<lambda>x. x \<noteq> c) (rev b @ c # rev a) = c # rev a"
    and "takeWhile (\<lambda>x. x \<noteq> c) (rev b @ c # rev a) = rev b"
    by (rule dropWhile_until, rule takeWhile_until)
  then show ?thesis by (simp add: rpartition_at_def)
qed

lemma parent_dir_output_file: "parent_dir (output_file r) = docs_dir r"
proof -
  have "rpartition_at CHR ''/'' (docs_dir r @ CHR ''/'' # ''prism.sql'')
      = (docs_dir r, True, ''prism.sql'')"
    by (rule rpartition_at_mid) simp
  then show ?thesis by (simp add: parent_dir_def output_file_def joinpath_def)
qed

lemma docs_dir_nonempty: "docs_dir r \<noteq> []"
  by (simp add: docs_dir_def joinpath_def)

lemma open_w_output_file:
  assumes "files (docs_dir r) = Some Dir"
  shows "open_w files (output_file r) =
     (case files (output_file r) of Some Dir \<Rightarrow> Some IsADirectoryError | _ \<Rightarrow> None)"
  by (simp add: open_w_def parent_dir_output_file docs_dir_nonempty assms)

lemma replace_crlf_no_cr: "CHR 0x0D \<notin> set s \<Longrightarrow> replace_crlf s = s"
  by (induction s rule: replace_crlf.induct) auto

lemma map_cr_no_cr:
  "CHR 0x0D \<notin> set s \<Longrightarrow> map (\<lambda>c. if c = CHR 0x0D then CHR 0x0A else c) s = s"
  by (induction s) auto

lemma translate_newlines_no_cr: "CHR 0x0D \<notin> set s \<Longrightarrow> translate_newlines s = s"
  by (simp add: translate_newlines_def replace_crlf_no_cr map_cr_no_cr)

lemma dump_schema_docker_result:
  "dump_schema_docker run pf cfg out w = (r, w') \<Longrightarrow>
     (invoked w' = invoked w \<and> fs w' = fs w \<and> (\<exists>e. r = Inl e)) \<or>
     (\<exists>args. invoked w' = invoked w @ [args] \<and>
        (\<forall>raw. run args = Completed raw \<longrightarrow>
             (r \<noteq> Inr True \<and> (\<forall>q. q \<noteq> out \<longrightarrow> fs w' q = fs w q)) \<or>
             (\<exists>text. locale_decode pf raw = Some text \<and> r = Inr True \<and>
                fs w' = (fs w)(out \<mapsto> File (translate_newlines text)) \<and>
                (\<exists>b. locale_encode pf (translate_newlines text) = Some b))) \<and>
        ((\<forall>s. run args \<noteq> Completed s) \<longrightarrow> r = Inr False \<and> fs w' = fs w))"
  by (auto simp: dump_schema_docker_def Let_def
      split: option.splits proc_result.splits if_splits)

lemma main_early:
  assumes "main run pf root w = (out, w')"
    and "\<And>cfg files r. mkdir_exist_ok (fs w) (docs_dir root) = Inr files \<Longrightarrow>
        dump_schema_docker run pf cfg (output_file root) (w\<lparr>fs := files\<rparr>) = (r, w') \<Longrightarrow>
        out \<noteq> (case r of Inl e \<Rightarrow> Uncaught e | Inr b \<Rightarrow> if b then Exit 0 else Exit 1)"
  shows "w' = w \<and> out \<noteq> Exit 0 \<and> exit_status out = 1"
proof (cases "load_env_file (fs w) (env_file root)")
  case (Inl oc)
  then have "oc = Exit 1 \<or> oc = Uncaught IsADirectoryError"
    by (auto simp: load_env_file_def split: option.splits node.splits)
  moreover have "out = oc \<and> w' = w" using assms(1) Inl by (simp add: main_def)
  ultimately show ?thesis by auto
next
  case env: (Inr env_vars)
  show ?thesis
  proof (cases "map_of env_vars ''DATABASE_URL''")
    case None
    then show ?thesis using assms(1) env by (auto simp: main_def)
  next
    case url: (Some database_url)
    show ?thesis
    proof (cases "database_url = []")
      case True
      then show ?thesis using assms(1) env url by (auto simp: main_def)
    next
      case ne: False
      show ?thesis
      proof (cases "parse_database_url pf database_url")
        case (Inl e)
        then show ?thesis using assms(1) env url ne by (auto simp: main_def)
      next
        case cfg: (Inr db_config)
        show ?thesis
        proof (cases "mkdir_exist_ok (fs w) (docs_dir root)")
          case (Inl e)
          then show ?thesis using assms(1) env url ne cfg by (auto simp: main_def)
        next
          case mk: (Inr files)
          obtain r w1 where
            d: "dump_schema_docker run pf db_config (output_file root) (w\<lparr>fs := files\<rparr>) = (r, w1)"
            by (cases "dump_schema_docker run pf db_config (output_file root) (w\<lparr>fs := files\<rparr>)")
          have "w' = w1 \<and> out = (case r of Inl e \<Rightarrow> Uncaught e | Inr b \<Rightarrow> if b then Exit 0 else Exit 1)"
            using assms(1) env url ne cfg mk d
            by (cases r) (auto simp: main_def)
          with assms(2) [OF mk] d show ?thesis by blast
        qed
      qed
    qed
  qed
qed

lemma main_result:
  assumes "main run pf root w = (out, w')"
  shows "(invoked w' = invoked w \<and> out \<noteq> Exit 0 \<and> exit_status out = 1 \<and>
            (\<forall>q. q \<noteq> docs_dir root \<longrightarrow> fs w' q = fs w q)) \<or>
         (\<exists>args. invoked w' = invoked w @ [args] \<and> fs w' (docs_dir root) = Some Dir \<and>
            (\<forall>raw. run args = Completed raw \<longrightarrow>
                 (out \<noteq> Exit 0 \<and> exit_status out = 1) \<or>
                 (\<exists>text. locale_decode pf raw = Some text \<and> out = Exit 0 \<and>
                    fs w' (output_file root) = Some (File (translate_newlines text)) \<and>
                    (\<exists>b. locale_encode pf (translate_newlines text) = Some b))) \<and>
            ((\<forall>s. run args \<noteq> Completed s) \<longrightarrow>
                 out = Exit 1 \<and> (\<forall>q. q \<noteq> docs_dir root \<longrightarrow> fs w' q = fs w q)))"
    (is "?early \<or> ?dump")
proof (cases "\<exists>cfg files r. mkdir_exist_ok (fs w) (docs_dir root) = Inr files \<and>
        dump_schema_docker run pf cfg (output_file root) (w\<lparr>fs := files\<rparr>) = (r, w') \<and>
        out = (case r of Inl e \<Rightarrow> Uncaught e | Inr b \<Rightarrow> if b then Exit 0 else Exit 1)")
  case False
  then have "w' = w \<and> out \<noteq> Exit 0 \<and> exit_status out = 1"
    by (intro main_early [OF assms]) blast
  then show ?thesis by simp
next
  case True
  then obtain cfg files r where mk: "mkdir_exist_ok (fs w) (docs_dir root) = Inr files"
    and d: "dump_schema_docker run pf cfg (output_file root) (w\<lparr>fs := files\<rparr>) = (r, w')"
    and out: "out = (case r of Inl e \<Rightarrow> Uncaught e | Inr b \<Rightarrow> if b then Exit 0 else Exit 1)"
    by blast
  from mkdir_exist_ok_Inr [OF mk]
  have dir: "files (docs_dir root) = Some Dir"
    and oth: "\<And>q. q \<noteq> docs_dir root \<Longrightarrow> files q = fs w q"
    by simp_all
  have n: "docs_dir root \<noteq> output_file root" by (rule docs_dir_neq_output_file)
  have st: "exit_status out = 1" if "out \<noteq> Exit 0"
    using that out by (cases r) (auto split: if_splits)
  from dump_schema_docker_result [OF d]
  consider (raised) e where "invoked w' = invoked w" "fs w' = files" "r = Inl e"
    | (ran) args where "invoked w' = invoked w @ [args]"
        "\<And>raw. run args = Completed raw \<Longrightarrow>
             (r \<noteq> Inr True \<and> (\<forall>q. q \<noteq> output_file root \<longrightarrow> fs w' q = files q)) \<or>
             (\<exists>text. locale_decode pf raw = Some text \<and> r = Inr True \<and>
                fs w' = files(output_file root \<mapsto> File (translate_newlines text)) \<and>
                (\<exists>b. locale_encode pf (translate_newlines text) = Some b))"
        "(\<forall>s. run args \<noteq> Completed s) \<Longrightarrow> r = Inr False \<and> fs w' = files"
    by simp blast
  then show ?thesis
  proof cases
    case raised
    then have ?early using out oth by simp
    then show ?thesis ..
  next
    case ran
    have "?dump"
    proof (intro exI conjI allI impI)
      show "invoked w' = invoked w @ [args]" by (rule ran(1))
      show "fs w' (docs_dir root) = Some Dir"
      proof (cases "\<exists>s. run args = Completed s")
        case True
        then obtain s where "run args = Completed s" ..
        from ran(2) [OF this] show ?thesis using dir n by auto
      next
        case False
        then show ?thesis using ran(3) dir by simp
      qed
    next
      fix raw assume "run args = Completed raw"
      from ran(2) [OF this]
      show "(out \<noteq> Exit 0 \<and> exit_status out = 1) \<or>
                 (\<exists>text. locale_decode pf raw = Some text \<and> out = Exit 0 \<and>
                    fs w' (output_file root) = Some (File (translate_newlines text)) \<and>
                    (\<exists>b. locale_encode pf (translate_newlines text) = Some b))"
      proof
        assume "r \<noteq> Inr True \<and> (\<forall>q. q \<noteq> output_file root \<longrightarrow> fs w' q = files q)"
        then have "out \<noteq> Exit 0" using out by (cases r) auto
        with st show ?thesis by simp
      next
        assume "\<exists>text. locale_decode pf raw = Some text \<and> r = Inr True \<and>
                fs w' = files(output_file root \<mapsto> File (translate_newlines text)) \<and>
                (\<exists>b. locale_encode pf (translate_newlines text) = Some b)"
        then show ?thesis using out by auto
      qed
    next
      assume "\<forall>s. run args \<noteq> Completed s"
      from ran(3) [OF this] show "out = Exit 1" using out by simp
    next
      fix q assume "\<forall>s. run args \<noteq> Completed s" and "q \<noteq> docs_dir root"
      with ran(3) oth show "fs w' q = fs w q" by simp
    qed
    then show ?thesis ..
  qed
qed

lemma main_reaches_dump:
  assumes "main run pf root w = (out, w')" and "invoked w' \<noteq> invoked w"
  shows "\<exists>cfg files r. mkdir_exist_ok (fs w) (docs_dir root) = Inr files \<and>
        dump_schema_docker run pf cfg (output_file root) (w\<lparr>fs := files\<rparr>) = (r, w') \<and>
        out = (case r of Inl e \<Rightarrow> Uncaught e | Inr b \<Rightarrow> if b then Exit 0 else Exit 1)"
proof (rule ccontr)
  assume "\<not> ?thesis"
  then have "w' = w \<and> out \<noteq> Exit 0 \<and> exit_status out = 1"
    by (intro main_early [OF assms(1)]) blast
  with assms(2) show False by simp
qed

lemma dump_schema_docker_success:
  assumes "dump_schema_docker run pf cfg out w = (r, w')"
    and "invoked w' = invoked w @ [cmd]"
    and "run cmd = Completed raw"
    and "locale_decode pf raw = Some decoded"
    and "locale_encode pf (translate_newlines decoded) = Some b"
    and "open_w (fs w) out = None"
  shows "r = Inr True \<and> fs w' = (fs w)(out \<mapsto> File (translate_newlines decoded))"
proof -
  have ck: "check_args (dump_cmd cfg) = None"
    using assms(1,2) by (auto simp: dump_schema_docker_def Let_def split: option.splits)
  have "invoked w' = invoked w @ [map the (dump_cmd cfg)]"
    using assms(1)
    by (auto simp: dump_schema_docker_def Let_def ck
        split: option.splits proc_result.splits if_splits)
  with assms(2) have cmd: "map the (dump_cmd cfg) = cmd" by simp
  show ?thesis
    using assms(1) by (auto simp: dump_schema_docker_def Let_def ck cmd assms(3-6))
qed


subsection \<open>The sample run, evaluated\<close>

lemma sample_env: "env_of_text sample_env_text = [(''DATABASE_URL'', sample_url)]"
  unfolding sample_url_def sample_env_text_def by code_simp

lemma sample_config:
  "parse_database_url pf sample_url =
     Inr \<lparr>host = ''myhost'', port = 5433, database = ''mydb'', user = Some ''u'',
          password = Some ''p''\<rparr>"
  unfolding sample_url_def by code_simp

lemma str_int_5433: "str_int 5433 = ''5433''"
  by (simp add: str_int_def str_nat.simps)

lemma sample_dump_cmd:
  "dump_cmd \<lparr>host = ''myhost'', port = 5433, database = ''mydb'', user = Some ''u'',
          password = Some ''p''\<rparr> = map Some sample_args"
  by (simp add: dump_cmd_def sample_args_def str_int_5433)

lemma check_args_sample: "check_args (map Some sample_args) = None"
  by (simp add: sample_args_def)

lemma sample_url_nonempty: "sample_url \<noteq> []"
  by (simp add: sample_url_def)

lemma sample_world_fs:
  "fs sample_world (env_file ''/proj'') = Some (File sample_env_text)"
  "fs sample_world (docs_dir ''/proj'') = None"
  "fs sample_world (output_file ''/proj'') = None"
  "invoked sample_world = []"
  by (simp_all add: sample_world_def env_file_def docs_dir_def output_file_def joinpath_def)

lemma sample_platform_codec:
  "locale_decode sample_platform b = Some b"
  "locale_encode sample_platform s = Some s"
  by (simp_all add: sample_platform_def)

lemma sample_open_w:
  "open_w ((fs sample_world)(docs_dir ''/proj'' \<mapsto> Dir)) (output_file ''/proj'') = None"
proof -
  have "open_w ((fs sample_world)(docs_dir ''/proj'' \<mapsto> Dir)) (output_file ''/proj'') =
     (case ((fs sample_world)(docs_dir ''/proj'' \<mapsto> Dir)) (output_file ''/proj'') of
        Some Dir \<Rightarrow> Some IsADirectoryError | _ \<Rightarrow> None)"
    by (rule open_w_output_file) simp
  then show ?thesis
    using docs_dir_neq_output_file [of "''/proj''"] by (simp add: sample_world_fs)
qed

lemma sample_dump:
  "dump_schema_docker run sample_platform
     \<lparr>host = ''myhost'', port = 5433, database = ''mydb'', user = Some ''u'',
          password = Some ''p''\<rparr> (output_file ''/proj'')
     (sample_world\<lparr>fs := (fs sample_world)(docs_dir ''/proj'' \<mapsto> Dir)\<rparr>) =
     (case run sample_args of
        Completed raw \<Rightarrow>
          (Inr True, sample_world\<lparr>fs := (fs sample_world)(docs_dir ''/proj'' \<mapsto> Dir,
                           output_file ''/proj'' \<mapsto> File (translate_newlines raw)),
                    invoked := [sample_args]\<rparr>)
      | _ \<Rightarrow>
          (Inr False, sample_world\<lparr>fs := (fs sample_world)(docs_dir ''/proj'' \<mapsto> Dir),
                    invoked := [sample_args]\<rparr>))"
  by (simp add: dump_schema_docker_def sample_dump_cmd check_args_sample comp_def
      sample_world_fs sample_platform_codec sample_open_w split: proc_result.splits)

lemma sample_main:
  "main run sample_platform ''/proj'' sample_world =
     (case run sample_args of
        Completed raw \<Rightarrow>
          (Exit 0, sample_world\<lparr>fs := (fs sample_world)(docs_dir ''/proj'' \<mapsto> Dir,
                           output_file ''/proj'' \<mapsto> File (translate_newlines raw)),
                    invoked := [sample_args]\<rparr>)
      | _ \<Rightarrow>
          (Exit 1, sample_world\<lparr>fs := (fs sample_world)(docs_dir ''/proj'' \<mapsto> Dir),
                    invoked := [sample_args]\<rparr>))"
  by (simp add: main_def load_env_file_def sample_world_fs sample_env sample_url_nonempty
      sample_config mkdir_exist_ok_def sample_dump split: proc_result.splits)

lemma translate_crlf_output: "translate_newlines crlf_output = lf_output"
  by (simp add: translate_newlines_def crlf_output_def lf_output_def)

lemma lf_output_neq_crlf_output: "lf_output \<noteq> crlf_output"
  by (simp add: crlf_output_def lf_output_def)

subsection \<open>The claims about the run\<close>

text \<open>
  Claim C3. When there is no environment file at the path (neither a file nor a
  directory), \<open>load_env_file\<close> ends the process with status 1, and \<open>main\<close> leaves the
  world as it was: the command runner is not invoked.
\<close>

theorem main_env_file_absent:
  assumes "fs w (env_file project_root) = None"
  shows "load_env_file (fs w) (env_file project_root) = Inl (Exit 1) \<and>
         main run pf project_root w = (Exit 1, w) \<and>
         invoked (snd (main run pf project_root w)) = invoked w"
  using assms by (simp add: main_def load_env_file_def)

theorem main_env_file_absent_witness:
  "main run_printing sample_platform ''/proj'' \<lparr>fs = Map.empty, invoked = []\<rparr> =
     (Exit 1, \<lparr>fs = Map.empty, invoked = []\<rparr>) \<and>
   invoked (snd (main run_printing sample_platform ''/proj''
      \<lparr>fs = Map.empty, invoked = []\<rparr>)) = []"
  using main_env_file_absent
    [of "\<lparr>fs = Map.empty, invoked = []\<rparr>" "''/proj''" run_printing sample_platform]
  by simp

text \<open>
  Claim C2. In a run that invokes the dump command, when the command exits with a
  non-zero status the process exits with status 1 and the output path holds what it
  held before the run: nothing when there was no file, the old file otherwise.
\<close>

theorem main_dump_nonzero_exit:
  assumes "main run pf project_root w = (out, w')"
    and "invoked w' = invoked w @ [cmd]"
    and "run cmd = CalledProcessError err"
  shows "out = Exit 1 \<and> exit_status out = 1 \<and>
         fs w' (output_file project_root) = fs w (output_file project_root)"
proof -
  have n: "output_file project_root \<noteq> docs_dir project_root"
    using docs_dir_neq_output_file [of project_root] by simp
  from main_result [OF assms(1)] assms(2,3) n show ?thesis by auto
qed

theorem main_dump_nonzero_exit_witness:
  "fst (main run_failing sample_platform ''/proj'' sample_world) = Exit 1 \<and>
   invoked (snd (main run_failing sample_platform ''/proj'' sample_world)) = [sample_args] \<and>
   run_failing sample_args = CalledProcessError ''connection refused'' \<and>
   fs (snd (main run_failing sample_platform ''/proj'' sample_world)) (output_file ''/proj'')
     = None"
proof -
  have m: "main run_failing sample_platform ''/proj'' sample_world =
      (fst (main run_failing sample_platform ''/proj'' sample_world),
       snd (main run_failing sample_platform ''/proj'' sample_world))" by simp
  have i: "invoked (snd (main run_failing sample_platform ''/proj'' sample_world)) =
      invoked sample_world @ [sample_args]"
    by (simp add: sample_main run_failing_def sample_world_fs)
  have r: "run_failing sample_args = CalledProcessError ''connection refused''"
    by (simp add: run_failing_def)
  from main_dump_nonzero_exit [OF m i r] i r show ?thesis
    by (simp add: sample_world_fs)
qed

text \<open>
  Claim C5 says that after a successful dump the file equals the output of the
  command byte for byte. With \<open>text=True\<close> the line breaks of the output are
  translated before the file is written: a command that ends its lines with a
  carriage return and a line feed leaves a file whose lines end with a line feed.
\<close>

theorem main_success_output_not_bytes:
  "fst (main run_printing_crlf sample_platform ''/proj'' sample_world) = Exit 0 \<and>
   run_printing_crlf sample_args = Completed crlf_output \<and>
   fs (snd (main run_printing_crlf sample_platform ''/proj'' sample_world))
     (output_file ''/proj'') = Some (File lf_output) \<and>
   file_bytes sample_platform (File lf_output) = Some lf_output \<and>
   lf_output \<noteq> crlf_output"
  by (simp add: sample_main run_printing_crlf_def translate_crlf_output file_bytes_def
      sample_platform_codec lf_output_neq_crlf_output)

text \<open>
  Claim C5, amended. A run that ends with status 0 has invoked the dump command
  once and the command has completed. The text of the output file is the captured
  standard output as \<open>subprocess.run\<close> returns it: the bytes of the command decoded
  with the codec of the locale, with the line breaks translated. The bytes of the
  file are this text encoded with the same codec; they are the bytes of the command
  when the decoded output has no carriage return and the codec encodes it back to
  the bytes it came from. Conversely, a run that invokes the command ends with
  status 0 and leaves this text in the file whenever the command completes, its
  output decodes, the translated text encodes and the output path is not a
  directory.
\<close>

theorem main_success_output_text:
  assumes "main run pf project_root w = (out, w')"
  shows "(out = Exit 0 \<longrightarrow>
           (\<exists>cmd raw text bytes. invoked w' = invoked w @ [cmd] \<and> run cmd = Completed raw \<and>
              locale_decode pf raw = Some text \<and>
              fs w' (output_file project_root) = Some (File (translate_newlines text)) \<and>
              file_bytes pf (File (translate_newlines text)) = Some bytes \<and>
              (CHR 0x0D \<notin> set text \<and> locale_encode pf text = Some raw \<longrightarrow> bytes = raw))) \<and>
         (\<forall>cmd raw text bytes.
            invoked w' = invoked w @ [cmd] \<and> run cmd = Completed raw \<and>
            locale_decode pf raw = Some text \<and>
            locale_encode pf (translate_newlines text) = Some bytes \<and>
            fs w (output_file project_root) \<noteq> Some Dir \<longrightarrow>
            out = Exit 0 \<and>
            fs w' (output_file project_root) = Some (File (translate_newlines text)))"
proof (intro conjI allI impI)
  assume "out = Exit 0"
  with assms have ex: "main run pf project_root w = (Exit 0, w')" by simp
  from main_result [OF ex]
  obtain args where a: "invoked w' = invoked w @ [args]"
    and c: "\<And>raw. run args = Completed raw \<Longrightarrow>
              \<exists>text. locale_decode pf raw = Some text \<and>
                fs w' (output_file project_root) = Some (File (translate_newlines text)) \<and>
                (\<exists>b. locale_encode pf (translate_newlines text) = Some b)"
    and f: "(\<forall>s. run args \<noteq> Completed s) \<Longrightarrow> False"
    by auto
  from f obtain raw where r: "run args = Completed raw" by blast
  from c [OF r] obtain decoded b where t: "locale_decode pf raw = Some decoded"
    and fo: "fs w' (output_file project_root) = Some (File (translate_newlines decoded))"
    and e: "locale_encode pf (translate_newlines decoded) = Some b"
    by blast
  have "CHR 0x0D \<notin> set decoded \<and> locale_encode pf decoded = Some raw \<longrightarrow> b = raw"
    using e by (auto simp: translate_newlines_no_cr)
  moreover have "file_bytes pf (File (translate_newlines decoded)) = Some b"
    using e by (simp add: file_bytes_def)
  ultimately show "\<exists>cmd raw text bytes. invoked w' = invoked w @ [cmd] \<and> run cmd = Completed raw \<and>
              locale_decode pf raw = Some text \<and>
              fs w' (output_file project_root) = Some (File (translate_newlines text)) \<and>
              file_bytes pf (File (translate_newlines text)) = Some bytes \<and>
              (CHR 0x0D \<notin> set text \<and> locale_encode pf text = Some raw \<longrightarrow> bytes = raw)"
    using a r t fo by blast
next
  fix cmd raw decoded bytes
  assume h: "invoked w' = invoked w @ [cmd] \<and> run cmd = Completed raw \<and>
            locale_decode pf raw = Some decoded \<and>
            locale_encode pf (translate_newlines decoded) = Some bytes \<and>
            fs w (output_file project_root) \<noteq> Some Dir"
  then have "invoked w' \<noteq> invoked w" by simp
  from main_reaches_dump [OF assms this]
  obtain cfg files r where mk: "mkdir_exist_ok (fs w) (docs_dir project_root) = Inr files"
    and d: "dump_schema_docker run pf cfg (output_file project_root) (w\<lparr>fs := files\<rparr>) = (r, w')"
    and out: "out = (case r of Inl e \<Rightarrow> Uncaught e | Inr b \<Rightarrow> if b then Exit 0 else Exit 1)"
    by blast
  from mkdir_exist_ok_Inr [OF mk]
  have dir: "files (docs_dir project_root) = Some Dir"
    and oth: "files (output_file project_root) = fs w (output_file project_root)"
    using docs_dir_neq_output_file [of project_root] by auto
  have "open_w files (output_file project_root) = None"
    using h oth dir
    by (simp add: open_w_output_file [of files project_root] split: option.splits node.splits)
  with dump_schema_docker_success [OF d, of cmd raw decoded bytes] h
  have "r = Inr True \<and> fs w' = files(output_file project_root \<mapsto> File (translate_newlines decoded))"
    by simp
  with out show "out = Exit 0" and
    "fs w' (output_file project_root) = Some (File (translate_newlines decoded))"
    by simp_all
qed

theorem main_success_output_text_witness:
  "fst (main run_printing sample_platform ''/proj'' sample_world) = Exit 0 \<and>
   fs sample_world (output_file ''/proj'') \<noteq> Some Dir \<and>
   (\<exists>cmd raw text bytes.
      invoked (snd (main run_printing sample_platform ''/proj'' sample_world)) = [cmd] \<and>
      run_printing cmd = Completed raw \<and>
      locale_decode sample_platform raw = Some text \<and>
      fs (snd (main run_printing sample_platform ''/proj'' sample_world)) (output_file ''/proj'')
        = Some (File (translate_newlines text)) \<and>
      file_bytes sample_platform (File (translate_newlines text)) = Some bytes \<and>
      CHR 0x0D \<notin> set text \<and> locale_encode sample_platform text = Some raw \<and> bytes = raw)"
proof -
  have e: "fst (main run_printing sample_platform ''/proj'' sample_world) = Exit 0"
    by (simp add: sample_main run_printing_def)
  have m: "main run_printing sample_platform ''/proj'' sample_world =
      (fst (main run_printing sample_platform ''/proj'' sample_world),
       snd (main run_printing sample_platform ''/proj'' sample_world))"
    by simp
  from main_success_output_text [OF m, THEN conjunct1] e show ?thesis
    by (auto simp: sample_world_fs run_printing_def sample_platform_codec)
qed

text \<open>
  Claim C10. In every run that invokes the dump command the \<open>docs\<close> directory exists
  afterwards; when the command does not complete (non-zero status, or docker not
  found) the process exits with status 1, the output path holds what it held before,
  and the \<open>docs\<close> directory is the only path of the file system that may have changed.
\<close>

theorem main_docs_dir_created:
  assumes "main run pf project_root w = (out, w')"
    and "invoked w' = invoked w @ [cmd]"
  shows "fs w' (docs_dir project_root) = Some Dir \<and>
         ((\<forall>s. run cmd \<noteq> Completed s) \<longrightarrow>
            out = Exit 1 \<and>
            fs w' (output_file project_root) = fs w (output_file project_root) \<and>
            (\<forall>q. q \<noteq> docs_dir project_root \<longrightarrow> fs w' q = fs w q))"
proof -
  have n: "output_file project_root \<noteq> docs_dir project_root"
    using docs_dir_neq_output_file [of project_root] by simp
  from main_result [OF assms(1)] assms(2) n show ?thesis by auto
qed

theorem main_docs_dir_created_witness:
  "fs sample_world (docs_dir ''/proj'') = None \<and>
   invoked (snd (main run_failing sample_platform ''/proj'' sample_world)) = [sample_args] \<and>
   (\<forall>s. run_failing sample_args \<noteq> Completed s) \<and>
   fs (snd (main run_failing sample_platform ''/proj'' sample_world)) (docs_dir ''/proj'')
     = Some Dir \<and>
   fs (snd (main run_failing sample_platform ''/proj'' sample_world)) (output_file ''/proj'')
     = None"
proof -
  have m: "main run_failing sample_platform ''/proj'' sample_world =
      (fst (main run_failing sample_platform ''/proj'' sample_world),
       snd (main run_failing sample_platform ''/proj'' sample_world))" by simp
  have i: "invoked (snd (main run_failing sample_platform ''/proj'' sample_world)) =
      invoked sample_world @ [sample_args]"
    by (simp add: sample_main run_failing_def sample_world_fs)
  have r: "\<forall>s. run_failing sample_args \<noteq> Completed s"
    by (simp add: run_failing_def)
  from main_docs_dir_created [OF m i] i r show ?thesis
    by (simp add: sample_world_fs)
qed

section \<open>Properties of the URL parser\<close>

lemma in_set_tl: "x \<in> set (tl xs) \<Longrightarrow> x \<in> set xs"
  by (cases xs) auto

lemma set_partition_at_after: "x \<in> set (snd (snd (partition_at c s))) \<Longrightarrow> x \<in> set s"
  by (auto simp: partition_at_def dest!: in_set_tl dest: set_dropWhileD split: if_splits)

lemma set_splitnetloc_fst: "x \<in> set (fst (splitnetloc u n)) \<Longrightarrow> x \<in> set u"
  by (auto simp: splitnetloc_def Let_def dest: set_takeWhileD in_set_dropD)

lemma isascii_subset: "set a \<subseteq> set b \<Longrightarrow> isascii b \<Longrightarrow> isascii a"
  by (auto simp: isascii_def)

lemma urlsplit_ascii_no_brackets:
  assumes "isascii url" and "CHR ''['' \<notin> set url" and "CHR '']'' \<notin> set url"
  shows "\<exists>r. urlsplit pf url = Inr r"
proof -
  define url2 where "url2 = filter (\<lambda>c. \<not> unsafe_url_byte c) (lstrip_by c0_control_or_space url)"
  define su where "su = (case partition_at CHR '':'' url2 of (pre, found, post) \<Rightarrow>
                if found \<and> pre \<noteq> [] \<and> ascii_alpha (hd pre) \<and> (\<forall>c \<in> set pre. c \<in> set scheme_chars)
                then (lower pre, post) else ([], url2))"
  define nu where "nu = (if take 2 (snd su) = ''//'' then splitnetloc (snd su) 2 else ([], snd su))"
  have s2: "set url2 \<subseteq> set url"
    by (auto simp: url2_def lstrip_by_def dest: set_dropWhileD)
  have "snd su = snd (snd (partition_at CHR '':'' url2)) \<or> snd su = url2"
    by (simp add: su_def split: prod.splits)
  then have s3: "set (snd su) \<subseteq> set url2"
    by (auto dest: set_partition_at_after)
  have "fst nu = fst (splitnetloc (snd su) 2) \<or> fst nu = []"
    by (simp add: nu_def)
  then have "set (fst nu) \<subseteq> set (snd su)"
    by (auto dest: set_splitnetloc_fst)
  with s2 s3 have sub: "set (fst nu) \<subseteq> set url" by blast
  with assms(2,3) have nb: "CHR ''['' \<notin> set (fst nu)" "CHR '']'' \<notin> set (fst nu)"
    by auto
  from sub assms(1) have "isascii (fst nu)" by (rule isascii_subset)
  then have ck: "checknetloc pf (fst nu) = None" by (simp add: checknetloc_def)
  have "urlsplit pf url =
     (let (scheme', url3) = su; (netloc', url4) = nu;
          lbr = CHR ''['' \<in> set netloc';
          rbr = CHR '']'' \<in> set netloc'
      in if take 2 url3 = ''//'' \<and> ((lbr \<and> \<not> rbr) \<or> (rbr \<and> \<not> lbr)) then Inl ValueError
         else if take 2 url3 = ''//'' \<and> lbr \<and> rbr \<and>
                 \<not> check_bracketed_host pf
                     (fst (partition_at CHR '']'' (snd (snd (partition_at CHR ''['' netloc')))))
           then Inl ValueError
         else
           let (url5, fragment') =
                 (case partition_at CHR ''#'' url4 of (a, found, b) \<Rightarrow> (a, b));
               (url6, query') =
                 (case partition_at CHR ''?'' url5 of (a, found, b) \<Rightarrow> (a, b))
           in case checknetloc pf netloc' of
                Some e \<Rightarrow> Inl e
              | None \<Rightarrow>
                  Inr \<lparr>scheme = scheme', netloc = netloc', path = url6, params = [],
                       query = query', fragment = fragment'\<rparr>)"
    unfolding urlsplit_def Let_def su_def nu_def url2_def
    by (simp split: prod.splits)
  moreover obtain sch url3 where su: "su = (sch, url3)" by (cases su)
  moreover obtain nl url4 where nu: "nu = (nl, url4)" by (cases nu)
  moreover from nb nu have "CHR ''['' \<notin> set nl" "CHR '']'' \<notin> set nl" by simp_all
  moreover from ck nu have "checknetloc pf nl = None" by simp
  ultimately show ?thesis
    by (simp add: Let_def split: prod.splits)
qed

lemma urlparse_ascii_no_brackets:
  assumes "isascii url" and "CHR ''['' \<notin> set url" and "CHR '']'' \<notin> set url"
  shows "\<exists>p. urlparse pf url = Inr p"
proof -
  from urlsplit_ascii_no_brackets [OF assms] obtain r where "urlsplit pf url = Inr r" ..
  then show ?thesis by (simp add: urlparse_def split: prod.splits)
qed

lemma str_or_hostname:
  "(fst (hostinfo (netloc p)) = [] \<longrightarrow> str_or (parsed_hostname p) ''localhost'' = ''localhost'') \<and>
   (fst (hostinfo (netloc p)) \<noteq> [] \<longrightarrow>
      parsed_hostname p = Some (str_or (parsed_hostname p) ''localhost''))"
  by (auto simp: parsed_hostname_def str_or_def Let_def partition_at_def lower_def)

lemma int_of_digits_error: "int_of_digits s = Inl e \<Longrightarrow> e = ValueError"
  by (auto simp: int_of_digits_def split: if_splits)

lemma no_host_url:
  "urlparse pf ''postgres:///mydb'' =
     Inr \<lparr>scheme = ''postgres'', netloc = [], path = ''/mydb'', params = [], query = [],
          fragment = []\<rparr>"
  by code_simp

lemma hostinfo_empty: "hostinfo [] = ([], None)"
  by code_simp

lemma bad_port_url: "parse_database_url pf ''postgres://u@h:abc/db'' = Inl ValueError"
  by code_simp

lemma port_only_url:
  "urlparse pf ''postgres://:5433/db'' =
     Inr \<lparr>scheme = ''postgres'', netloc = '':5433'', path = ''/db'', params = [], query = [],
          fragment = []\<rparr>"
  by code_simp

lemma hostinfo_port_only: "hostinfo '':5433'' = ([], Some ''5433'')"
  by code_simp

lemma int_of_digits_5433: "int_of_digits ''5433'' = Inr 5433"
  by (simp add: int_of_digits_def)

lemma digits_5433: "\<forall>c\<in>set ''5433''. ascii_digit c"
  by (simp add: ascii_digit_def)

lemma port_only_url_plain:
  "isascii ''postgres://:5433/db''"
  "CHR ''['' \<notin> set ''postgres://:5433/db''"
  "CHR '']'' \<notin> set ''postgres://:5433/db''"
  by (simp_all add: isascii_def)

text \<open>
  Claim C1. For the URL \<open>postgres://u:p@myhost:5433/mydb\<close> the parser returns host
  \<open>myhost\<close>, port 5433, database \<open>mydb\<close>, user \<open>u\<close> and password \<open>p\<close>.
\<close>

theorem parse_database_url_example:
  "parse_database_url pf ''postgres://u:p@myhost:5433/mydb'' =
     Inr \<lparr>host = ''myhost'', port = 5433, database = ''mydb'', user = Some ''u'',
          password = Some ''p''\<rparr>"
  by code_simp

text \<open>
  Claim C4 says that no malformed URL makes the parser fail. A URL whose port is not
  a number is malformed, and reading \<open>parsed.port\<close> raises \<open>ValueError\<close> for it.
\<close>

theorem parse_database_url_bad_port_raises:
  "parse_database_url sample_platform ''postgres://u@h:abc/db'' = Inl ValueError"
  by (rule bad_port_url)

text \<open>
  Claim C4, amended. \<open>urlparse\<close> accepts every URL of ASCII characters without square
  brackets. Whenever \<open>urlparse\<close> accepts a URL, the parser fails exactly when the URL
  has a port text that is not a decimal number from 0 to 65535, with \<open>ValueError\<close>.
  Otherwise it returns a record: the port is 5432 when the port text is missing or
  denotes 0 and the number otherwise; the host is \<open>localhost\<close> when the host is
  missing and the host name of the URL otherwise.
\<close>

theorem parse_database_url_fails_iff_bad_port:
  "(isascii url \<and> CHR ''['' \<notin> set url \<and> CHR '']'' \<notin> set url \<longrightarrow>
      (\<exists>p. urlparse pf url = Inr p)) \<and>
   (\<forall>p. urlparse pf url = Inr p \<longrightarrow>
      (snd (hostinfo (netloc p)) = None \<longrightarrow>
         (\<exists>r. parse_database_url pf url = Inr r \<and> port r = 5432 \<and>
              (fst (hostinfo (netloc p)) = [] \<longrightarrow> host r = ''localhost'') \<and>
              (fst (hostinfo (netloc p)) \<noteq> [] \<longrightarrow> parsed_hostname p = Some (host r)))) \<and>
      (\<forall>pt n. snd (hostinfo (netloc p)) = Some pt \<and> (\<forall>c\<in>set pt. ascii_digit c) \<and>
              int_of_digits pt = Inr n \<and> 0 \<le> n \<and> n \<le> 65535 \<longrightarrow>
         (\<exists>r. parse_database_url pf url = Inr r \<and>
              port r = (if n = 0 then 5432 else n) \<and>
              (fst (hostinfo (netloc p)) = [] \<longrightarrow> host r = ''localhost'') \<and>
              (fst (hostinfo (netloc p)) \<noteq> [] \<longrightarrow> parsed_hostname p = Some (host r)))) \<and>
      (\<forall>pt. snd (hostinfo (netloc p)) = Some pt \<and>
            \<not> ((\<forall>c\<in>set pt. ascii_digit c) \<and>
               (\<exists>n. int_of_digits pt = Inr n \<and> 0 \<le> n \<and> n \<le> 65535)) \<longrightarrow>
         parse_database_url pf url = Inl ValueError))"
proof (intro conjI allI impI)
  assume "isascii url \<and> CHR ''['' \<notin> set url \<and> CHR '']'' \<notin> set url"
  then show "\<exists>p. urlparse pf url = Inr p"
    by (intro urlparse_ascii_no_brackets) simp_all
next
  fix p
  assume p: "urlparse pf url = Inr p" and "snd (hostinfo (netloc p)) = None"
  then show "\<exists>r. parse_database_url pf url = Inr r \<and> port r = 5432 \<and>
              (fst (hostinfo (netloc p)) = [] \<longrightarrow> host r = ''localhost'') \<and>
              (fst (hostinfo (netloc p)) \<noteq> [] \<longrightarrow> parsed_hostname p = Some (host r))"
    using str_or_hostname [of p]
    by (simp add: parse_database_url_def parsed_port_def int_or_def)
next
  fix p pt n
  assume p: "urlparse pf url = Inr p"
    and "snd (hostinfo (netloc p)) = Some pt \<and> (\<forall>c\<in>set pt. ascii_digit c) \<and>
              int_of_digits pt = Inr n \<and> 0 \<le> n \<and> n \<le> 65535"
  then show "\<exists>r. parse_database_url pf url = Inr r \<and>
              port r = (if n = 0 then 5432 else n) \<and>
              (fst (hostinfo (netloc p)) = [] \<longrightarrow> host r = ''localhost'') \<and>
              (fst (hostinfo (netloc p)) \<noteq> [] \<longrightarrow> parsed_hostname p = Some (host r))"
    using str_or_hostname [of p]
    by (simp add: parse_database_url_def parsed_port_def int_or_def)
next
  fix p pt
  assume p: "urlparse pf url = Inr p"
    and b: "snd (hostinfo (netloc p)) = Some pt \<and>
            \<not> ((\<forall>c\<in>set pt. ascii_digit c) \<and>
               (\<exists>n. int_of_digits pt = Inr n \<and> 0 \<le> n \<and> n \<le> 65535))"
  then have "parsed_port p = Inl ValueError"
    by (auto simp: parsed_port_def split: sum.splits dest: int_of_digits_error)
  then show "parse_database_url pf url = Inl ValueError"
    by (simp add: parse_database_url_def p)
qed

theorem parse_database_url_fails_iff_bad_port_witness:
  "isascii ''postgres://:5433/db'' \<and>
   CHR ''['' \<notin> set ''postgres://:5433/db'' \<and> CHR '']'' \<notin> set ''postgres://:5433/db'' \<and>
   (\<exists>p. urlparse sample_platform ''postgres://:5433/db'' = Inr p) \<and>
   (\<exists>r. parse_database_url sample_platform ''postgres://:5433/db'' = Inr r \<and>
        port r = 5433 \<and> host r = ''localhost'')"
proof -
  note t = parse_database_url_fails_iff_bad_port [of "''postgres://:5433/db''" sample_platform]
  from t port_only_url_plain
  have "\<exists>p. urlparse sample_platform ''postgres://:5433/db'' = Inr p" by blast
  moreover from t [THEN conjunct2, rule_format, OF port_only_url, THEN conjunct2,
      THEN conjunct1, rule_format, of "''5433''" 5433]
  have "\<exists>r. parse_database_url sample_platform ''postgres://:5433/db'' = Inr r \<and>
        port r = 5433 \<and> host r = ''localhost''"
    by (simp add: hostinfo_port_only int_of_digits_5433 digits_5433)
  ultimately show ?thesis using port_only_url_plain by simp
qed

lemma no_host_parsed:
  "parsed_hostname \<lparr>scheme = ''postgres'', netloc = [], path = ''/mydb'', params = [], query = [],
          fragment = []\<rparr> = None"
  "parsed_port \<lparr>scheme = ''postgres'', netloc = [], path = ''/mydb'', params = [], query = [],
          fragment = []\<rparr> = Inr None"
  by (simp_all add: parsed_hostname_def parsed_port_def hostinfo_empty)

lemma no_host_config:
  "parse_database_url pf ''postgres:///mydb'' =
     Inr \<lparr>host = str_or None ''localhost'', port = int_or None 5432, database = ''mydb'',
          user = None, password = None\<rparr>"
  by code_simp

text \<open>
  Claim C6. For the URL \<open>postgres://u@localhost/mydb\<close> the parser returns host
  \<open>localhost\<close>, port 5432, database \<open>mydb\<close>, user \<open>u\<close> and no password; and whenever
  it returns a record, the host is \<open>localhost\<close> if the URL has no host name and the
  port is 5432 if the URL has no port.
\<close>

theorem parse_database_url_defaults:
  "parse_database_url pf ''postgres://u@localhost/mydb'' =
     Inr \<lparr>host = ''localhost'', port = 5432, database = ''mydb'', user = Some ''u'',
          password = None\<rparr> \<and>
   (\<forall>url p r. urlparse pf url = Inr p \<longrightarrow> parse_database_url pf url = Inr r \<longrightarrow>
      (parsed_hostname p = None \<longrightarrow> host r = ''localhost'') \<and>
      (parsed_port p = Inr None \<longrightarrow> port r = 5432))"
proof (intro conjI allI impI)
  show "parse_database_url pf ''postgres://u@localhost/mydb'' =
     Inr \<lparr>host = ''localhost'', port = 5432, database = ''mydb'', user = Some ''u'',
          password = None\<rparr>"
    by code_simp
next
  fix url p r
  assume "urlparse pf url = Inr p" and r: "parse_database_url pf url = Inr r"
    and "parsed_hostname p = None"
  then show "host r = ''localhost''"
    by (auto simp: parse_database_url_def str_or_def split: sum.splits)
next
  fix url p r
  assume "urlparse pf url = Inr p" and r: "parse_database_url pf url = Inr r"
    and "parsed_port p = Inr None"
  then show "port r = 5432"
    by (auto simp: parse_database_url_def int_or_def split: sum.splits)
qed

theorem parse_database_url_defaults_witness:
  "\<exists>p r. urlparse sample_platform ''postgres:///mydb'' = Inr p \<and>
      parse_database_url sample_platform ''postgres:///mydb'' = Inr r \<and>
      parsed_hostname p = None \<and> parsed_port p = Inr None \<and>
      host r = ''localhost'' \<and> port r = 5432"
proof -
  from parse_database_url_defaults [of sample_platform, THEN conjunct2, rule_format,
      OF no_host_url no_host_config] no_host_parsed
  have "host \<lparr>host = str_or None ''localhost'', port = int_or None 5432, database = ''mydb'',
          user = None, password = None\<rparr> = ''localhost'' \<and>
        port \<lparr>host = str_or None ''localhost'', port = int_or None 5432, database = ''mydb'',
          user = None, password = None\<rparr> = 5432"
    by blast
  with no_host_url [of sample_platform] no_host_config [of sample_platform] no_host_parsed
  show ?thesis by blast
qed

end
